theory Spec2Isabelle
  imports Main "HOL-Library.Word" "HOL-Library.Signed_Division"
begin

section \<open>Go values shared by the two packages\<close>

type_synonym byte = "8 word"

text \<open>
  A Go error value is made by \<^verbatim>\<open>errors.New(text)\<close> or by
  \<^verbatim>\<open>fmt.Errorf("text: %w", cause)\<close>, which keeps the cause reachable for
  \<^verbatim>\<open>errors.Is\<close>. \<open>New\<close> carries the text; \<open>Wrap\<close> carries the format string up to
  the colon before \<^verbatim>\<open>%w\<close>, and the cause; \<open>Errorf\<close> is
  \<^verbatim>\<open>fmt.Errorf(format, arg)\<close> with no \<^verbatim>\<open>%w\<close>, kept as the format string and the
  string argument it formats, so that no formatting verb has to be computed.
\<close>

datatype error = New string | Errorf string string | Wrap string error

fun errorsIs :: "error \<Rightarrow> error \<Rightarrow> bool" where
  "errorsIs (New m) t = (New m = t)"
| "errorsIs (Errorf f a) t = (Errorf f a = t)"
| "errorsIs (Wrap m c) t = (Wrap m c = t \<or> errorsIs c t)"

text \<open>The four sentinel errors of \<^verbatim>\<open>pkg/signatures/api.go\<close>.\<close>

definition ErrInvalidKey :: error where
  "ErrInvalidKey = New ''signer: invalid or unsupported key format''"

definition ErrInvalidArgument :: error where
  "ErrInvalidArgument = New ''invalid argument''"

definition ErrHashUnavailable :: error where
  "ErrHashUnavailable = New ''the required hash function is not available''"

definition ErrInvalidSignature :: error where
  "ErrInvalidSignature = New ''invalid signature''"

text \<open>
  \<^verbatim>\<open>elliptic.CurveParams\<close>, read by the code only through \<^verbatim>\<open>BitSize\<close>;
  a key's \<^verbatim>\<open>Curve\<close> is an interface value and may be nil.
\<close>

record curveParams =
  CurveName :: string
  BitSize :: int

definition P256 :: curveParams where
  "P256 = \<lparr>CurveName = ''P-256'', BitSize = 256\<rparr>"

definition P384 :: curveParams where
  "P384 = \<lparr>CurveName = ''P-384'', BitSize = 384\<rparr>"

record ecdsaPublicKey =
  Curve :: "curveParams option"
  X :: int
  Y :: int

record ecdsaPrivateKey =
  PublicKey :: ecdsaPublicKey
  D :: int

text \<open>
  The dynamic values an \<^verbatim>\<open>interface{}\<close> key can hold, as far as the code tells them
  apart: the untyped nil, each key type by value and by pointer (a pointer may be nil),
  and any other type.
\<close>

datatype key =
    NilKey
  | Ed25519PublicKey "byte list"
  | Ed25519PublicKeyPtr "byte list option"
  | Ed25519PrivateKey "byte list"
  | Ed25519PrivateKeyPtr "byte list option"
  | EcdsaPublicKey ecdsaPublicKey
  | EcdsaPublicKeyPtr "ecdsaPublicKey option"
  | EcdsaPrivateKey ecdsaPrivateKey
  | EcdsaPrivateKeyPtr "ecdsaPrivateKey option"
  | OtherKey string

text \<open>\<^verbatim>\<open>io.Reader\<close> values used as randomness sources.\<close>

datatype reader = CryptoRandReader | BytesReader "byte list" | NilReader

text \<open>\<^verbatim>\<open>crypto.Hash\<close> selectors used by the registered algorithms.\<close>

datatype hash = SHA256 | SHA384

text \<open>\<^verbatim>\<open>big.Int.SetBytes\<close> and \<^verbatim>\<open>big.Int.FillBytes\<close>: big-endian, unsigned.\<close>

definition natOfBytes :: "byte list \<Rightarrow> nat" where
  "natOfBytes bs = foldl (\<lambda>a b. a * 256 + unat b) 0 bs"

definition SetBytes :: "byte list \<Rightarrow> int" where
  "SetBytes bs = int (natOfBytes bs)"

fun bigEndian :: "nat \<Rightarrow> nat \<Rightarrow> byte list" where
  "bigEndian 0 x = []"
| "bigEndian (Suc n) x = bigEndian n (x div 256) @ [of_nat (x mod 256)]"

text \<open>\<^verbatim>\<open>FillBytes\<close> writes the absolute value and panics when it does not fit.\<close>

definition FillBytes :: "int \<Rightarrow> nat \<Rightarrow> byte list option" where
  "FillBytes x n = (if nat \<bar>x\<bar> < 256 ^ n then Some (bigEndian n (nat \<bar>x\<bar>)) else None)"

section \<open>What the packages take from outside their own text\<close>

text \<open>
  The Go standard library (\<^verbatim>\<open>encoding/json\<close>, \<^verbatim>\<open>crypto/elliptic\<close>,
  \<^verbatim>\<open>crypto/ecdsa\<close>, \<^verbatim>\<open>crypto/ed25519\<close>, \<^verbatim>\<open>crypto\<close>) is not part of the
  repository. Every function below takes it as a parameter, so each theorem holds
  for whatever these functions compute.

  \<^item> \<open>jsonDecode bs\<close>: \<^verbatim>\<open>json.NewDecoder(r).Decode(&key)\<close> where the reader \<open>r\<close>
    delivers the bytes \<open>bs\<close> and then EOF.
  \<^item> \<open>lowOrderPoints\<close>: the table behind \<^verbatim>\<open>isEdLowOrder\<close>.
  \<^item> \<open>ed25519PublicFromSeed\<close>: the public key of \<^verbatim>\<open>ed25519.NewKeyFromSeed\<close>.
  \<^item> \<open>Unmarshal\<close>, \<open>UnmarshalCompressed\<close>, \<open>IsOnCurve\<close>, \<open>ScalarBaseMult\<close>:
    the functions of \<^verbatim>\<open>crypto/elliptic\<close>; a nil \<open>x\<close> is \<open>None\<close>.
  \<^item> \<open>hashAvailable\<close>, \<open>hashSum\<close>: \<^verbatim>\<open>crypto.Hash.Available\<close> and
    \<^verbatim>\<open>New\<close>, \<^verbatim>\<open>Write\<close>, \<^verbatim>\<open>Sum(nil)\<close> in sequence.
  \<^item> \<open>ecdsaSign\<close>, \<open>ecdsaVerify\<close>, \<open>ed25519Sign\<close>, \<open>ed25519Verify\<close>: the
    signing and verification functions of the two crypto packages.
\<close>

record jsonKeyPair =
  Public :: "byte list"
  Private :: "byte list option"

record env =
  jsonDecode :: "byte list \<Rightarrow> error + jsonKeyPair"
  lowOrderPoints :: "byte list list"
  ed25519PublicFromSeed :: "byte list \<Rightarrow> byte list"
  Unmarshal :: "curveParams \<Rightarrow> byte list \<Rightarrow> (int \<times> int) option"
  UnmarshalCompressed :: "curveParams \<Rightarrow> byte list \<Rightarrow> (int \<times> int) option"
  IsOnCurve :: "curveParams \<Rightarrow> int \<Rightarrow> int \<Rightarrow> bool"
  ScalarBaseMult :: "curveParams \<Rightarrow> byte list \<Rightarrow> int \<times> int"
  hashAvailable :: "hash \<Rightarrow> bool"
  hashSum :: "hash \<Rightarrow> byte list \<Rightarrow> error + byte list"
  ecdsaSign :: "reader \<Rightarrow> ecdsaPrivateKey \<Rightarrow> byte list \<Rightarrow> error + (int \<times> int)"
  ecdsaVerify :: "ecdsaPublicKey \<Rightarrow> byte list \<Rightarrow> int \<Rightarrow> int \<Rightarrow> bool"
  ed25519Sign :: "reader \<Rightarrow> byte list \<Rightarrow> byte list \<Rightarrow> error + byte list"
  ed25519Verify :: "byte list \<Rightarrow> byte list \<Rightarrow> byte list \<Rightarrow> bool"

section \<open>Package key: the decoder\<close>

text \<open>
  \<^verbatim>\<open>data.PrivateKey\<close> and \<^verbatim>\<open>data.PublicKey\<close> are read through the same two
  fields, so one record stands for both.
\<close>

record tufKey =
  Type :: string
  Value :: "byte list"

text \<open>
  Modelled from the spec: the constant \<^verbatim>\<open>data.KeyTypeEd25519\<close> is not among the
  sources; the spec lists the recognised type string "ed25519".
\<close>

definition KeyTypeEd25519 :: string where
  "KeyTypeEd25519 = ''ed25519''"

text \<open>
  Modelled from the spec: the constant \<^verbatim>\<open>data.KeyTypeECDSA_SHA2_P256\<close> is not among
  the sources; the spec lists the recognised type string "ecdsa-sha2-nistp256".
\<close>

definition KeyTypeECDSA_SHA2_P256 :: string where
  "KeyTypeECDSA_SHA2_P256 = ''ecdsa-sha2-nistp256''"

text \<open>
  Modelled from the spec: the constant \<^verbatim>\<open>data.KeyTypeRSASSA_PSS_SHA256\<close> is not among
  the sources; the spec lists the recognised type string "rsassa-pss-sha256".
\<close>

definition KeyTypeRSASSA_PSS_SHA256 :: string where
  "KeyTypeRSASSA_PSS_SHA256 = ''rsassa-pss-sha256''"

text \<open>
  \<^verbatim>\<open>MaxKeyInputSize\<close> is declared in the decoder; the three sizes are those of
  \<^verbatim>\<open>crypto/ed25519\<close>.
\<close>

definition MaxKeyInputSize :: nat where
  "MaxKeyInputSize = 1024 * 1024"

definition PublicKeySize :: nat where
  "PublicKeySize = 32"

definition PrivateKeySize :: nat where
  "PrivateKeySize = 64"

definition SeedSize :: nat where
  "SeedSize = 32"

text \<open>
  Modelled from the spec: \<^verbatim>\<open>isEdLowOrder\<close> is called by the decoder but is not among
  the sources; the spec says the decoder must "reject if the public key is one of the
  known low-order points (a small fixed blacklist)".
\<close>

definition isEdLowOrder :: "env \<Rightarrow> byte list \<Rightarrow> bool" where
  "isEdLowOrder E pub = (pub \<in> set (lowOrderPoints E))"

text \<open>
  \<^verbatim>\<open>ed25519.GenerateKey(rd)\<close> fills a seed of \<open>SeedSize\<close> bytes from the reader and
  returns the public key and the private key (seed followed by public key).
\<close>

definition ed25519GenerateKey :: "env \<Rightarrow> byte list \<Rightarrow> error + (byte list \<times> byte list)" where
  "ed25519GenerateKey E rd =
     (if rd = [] then Inl (New ''EOF'')
      else if length rd < SeedSize then Inl (New ''unexpected EOF'')
      else Inr (ed25519PublicFromSeed E (take SeedSize rd),
                take SeedSize rd @ ed25519PublicFromSeed E (take SeedSize rd)))"

definition unmarshalEd25519Key :: "env \<Rightarrow> jsonKeyPair option \<Rightarrow> error + key" where
  "unmarshalEd25519Key E raw =
     (case raw of
        None \<Rightarrow> Inl (New ''key: nil decoded key components'')
      | Some kp \<Rightarrow>
          if length (Public kp) \<noteq> PublicKeySize
          then Inl (New ''key: unexpected public key length for ed25519 key'')
          else if isEdLowOrder E (Public kp)
          then Inl (New ''key: the public key is blacklisted'')
          else (case Private kp of
                  None \<Rightarrow> Inr (Ed25519PublicKey (Public kp))
                | Some priv \<Rightarrow>
                    if length priv \<noteq> PrivateKeySize
                    then Inl (New ''key: unexpected public key length for ed25519 key'')
                    else (case ed25519GenerateKey E priv of
                            Inl err \<Rightarrow>
                              Inl (Wrap ''key: unable to derive public key from private key'' err)
                          | Inr (pub, _) \<Rightarrow>
                              if Public kp \<noteq> pub
                              then Inl (New ''key: public and private keys doesn't match'')
                              else Inr (Ed25519PrivateKey priv))))"

text \<open>Go's integer division and remainder truncate towards zero.\<close>

definition curveByteSize :: "curveParams \<Rightarrow> int" where
  "curveByteSize params =
     (let bitSize = BitSize params; byteSize = bitSize sdiv 8
      in if bitSize smod 8 \<noteq> 0 then byteSize + 1 else byteSize)"

definition unmarshalECDSAKey :: "env \<Rightarrow> jsonKeyPair option \<Rightarrow> error + key" where
  "unmarshalECDSAKey E raw =
     (case raw of
        None \<Rightarrow> Inl (New ''key: nil decoded key components'')
      | Some kp \<Rightarrow>
          (let curve = P256; byteSize = curveByteSize curve in
           case Public kp of
             [] \<Rightarrow> Inl (New ''key: invalid public key size'')
           | b # _ \<Rightarrow>
               (case (if b = 2 \<or> b = 3 then Inr (UnmarshalCompressed E curve (Public kp))
                      else if b = 4 then Inr (Unmarshal E curve (Public kp))
                      else Inl (New ''key: unsupported ecdsa public key encoding'')) of
                  Inl err \<Rightarrow> Inl err
                | Inr None \<Rightarrow> Inl (New ''key: unable to decode ecdsa public key'')
                | Inr (Some (x, y)) \<Rightarrow>
                    if \<not> IsOnCurve E curve x y
                    then Inl (New ''key: ecdsa public key point is not on the associated curve'')
                    else (let pub = \<lparr>Curve = Some curve, X = x, Y = y\<rparr> in
                          case Private kp of
                            None \<Rightarrow> Inr (EcdsaPublicKeyPtr (Some pub))
                          | Some priv \<Rightarrow>
                              if int (length priv) \<noteq> byteSize
                              then Inl (New ''key: invalid ecdsa private key length for the associated curve'')
                              else (let d = SetBytes priv;
                                        (dx, dy) = ScalarBaseMult E curve priv
                                    in if dx \<noteq> X pub \<or> dy \<noteq> Y pub
                                       then Inl (New ''key: public and private keys doesn't match'')
                                       else Inr (EcdsaPrivateKeyPtr
                                                   (Some \<lparr>PublicKey = pub, D = d\<rparr>)))))))"

definition unmarshalRSAKey :: "env \<Rightarrow> jsonKeyPair option \<Rightarrow> error + key" where
  "unmarshalRSAKey E raw =
     (case raw of
        None \<Rightarrow> Inl (New ''key: nil decoded key components'')
      | Some kp \<Rightarrow> Inr NilKey)"

text \<open>
  \<^verbatim>\<open>io.LimitReader(bytes.NewReader(v), MaxKeyInputSize)\<close> delivers the first
  \<open>MaxKeyInputSize\<close> bytes of \<open>v\<close> and then EOF.
\<close>

definition FromPrivateKey :: "env \<Rightarrow> tufKey option \<Rightarrow> error + key" where
  "FromPrivateKey E tufPk =
     (case tufPk of
        None \<Rightarrow> Inl (New ''key: invalid private key object'')
      | Some k \<Rightarrow>
          (case jsonDecode E (take MaxKeyInputSize (Value k)) of
             Inl err \<Rightarrow> Inl (Wrap ''key: unable to decode the key components'' err)
           | Inr kp \<Rightarrow>
               if Type k = KeyTypeEd25519 then unmarshalEd25519Key E (Some kp)
               else if Type k = KeyTypeECDSA_SHA2_P256 then unmarshalECDSAKey E (Some kp)
               else if Type k = KeyTypeRSASSA_PSS_SHA256 then unmarshalRSAKey E (Some kp)
               else Inl (Errorf ''key: unsupported private key type %q'' (Type k))))"

definition FromPublicKey :: "env \<Rightarrow> tufKey option \<Rightarrow> error + key" where
  "FromPublicKey E tufPk =
     (case tufPk of
        None \<Rightarrow> Inl (New ''key: invalid public key object'')
      | Some k \<Rightarrow>
          (case jsonDecode E (take MaxKeyInputSize (Value k)) of
             Inl err \<Rightarrow> Inl (Wrap ''key: unable to decode the key components'' err)
           | Inr kp \<Rightarrow>
               if Type k = KeyTypeEd25519 then unmarshalEd25519Key E (Some kp)
               else if Type k = KeyTypeECDSA_SHA2_P256 then unmarshalECDSAKey E (Some kp)
               else if Type k = KeyTypeRSASSA_PSS_SHA256 then unmarshalRSAKey E (Some kp)
               else Inl (Errorf ''key: unsupported public key type %q'' (Type k))))"

section \<open>Package signatures: the algorithms\<close>

text \<open>
  What a call does: it returns a value, returns an error, or panics (a nil pointer or
  nil interface is dereferenced, a slice is made with a negative length, or
  \<^verbatim>\<open>FillBytes\<close> is given a buffer that is too small).
\<close>

datatype 'a outcome = Return 'a | Fail error | Panic

record SignOptions =
  randSource :: reader

type_synonym SignOption = "SignOptions \<Rightarrow> SignOptions"

definition withSignRandomSource :: "reader \<Rightarrow> SignOption" where
  "withSignRandomSource r = (\<lambda>dopts. dopts\<lparr>randSource := r\<rparr>)"

record ecdsaSigner =
  name :: string
  hash :: hash
  curveBits :: int
  keySize :: int

definition ecdsaSigner_Name :: "ecdsaSigner \<Rightarrow> string" where
  "ecdsaSigner_Name m = name m"

definition ecdsaSigner_Sign ::
  "env \<Rightarrow> ecdsaSigner \<Rightarrow> byte list \<Rightarrow> key \<Rightarrow> SignOption list \<Rightarrow> byte list outcome" where
  "ecdsaSigner_Sign E m msg k opts =
     (if msg = [] then Fail (Wrap ''ecdsa: provided msg is nil or empty'' ErrInvalidArgument)
      else if k = NilKey then Fail (Wrap ''ecdsa: provided key is nil'' ErrInvalidKey)
      else
        (case (case k of
                 EcdsaPrivateKeyPtr p \<Rightarrow> Some p
               | EcdsaPrivateKey v \<Rightarrow> Some (Some v)
               | _ \<Rightarrow> None) of
           None \<Rightarrow> Fail (Wrap ''ecdsa: unsupported private key type (%T)'' ErrInvalidKey)
         | Some None \<Rightarrow> Panic
         | Some (Some pk) \<Rightarrow>
             (case Curve (PublicKey pk) of
                None \<Rightarrow> Panic
              | Some c \<Rightarrow>
                  (let cBits = BitSize c in
                   if curveBits m \<noteq> cBits
                   then Fail (Wrap ''ecdsa: can't use the provided key with this signer instance, curve mismatch'' ErrInvalidKey)
                   else
                     (let dopts = fold (\<lambda>opt d. opt d) opts \<lparr>randSource = CryptoRandReader\<rparr> in
                      if \<not> hashAvailable E (hash m) then Fail ErrHashUnavailable
                      else
                        (case hashSum E (hash m) msg of
                           Inl err \<Rightarrow> Fail (Wrap ''ecdsa: unable to compute protected content hash'' err)
                         | Inr digest \<Rightarrow>
                             (case ecdsaSign E (randSource dopts) pk digest of
                                Inr (r, s) \<Rightarrow>
                                  (let keyBytes = cBits sdiv 8 + (if cBits smod 8 > 0 then 1 else 0) in
                                   if 2 * keyBytes < 0 then Panic
                                   else
                                     (case (FillBytes r (nat keyBytes), FillBytes s (nat keyBytes)) of
                                        (Some rb, Some sb) \<Rightarrow> Return (rb @ sb)
                                      | _ \<Rightarrow> Panic))
                              | Inl err \<Rightarrow> Fail ErrInvalidSignature)))))))"

definition ecdsaSigner_Verify ::
  "env \<Rightarrow> ecdsaSigner \<Rightarrow> byte list \<Rightarrow> byte list \<Rightarrow> key \<Rightarrow> unit outcome" where
  "ecdsaSigner_Verify E m msg signature k =
     (if msg = [] then Fail (Wrap ''ecdsa: provided msg is nil or empty'' ErrInvalidArgument)
      else if signature = []
      then Fail (Wrap ''ecdsa: provided signature is nil or empty'' ErrInvalidArgument)
      else if k = NilKey then Fail (Wrap ''ecdsa: provided key is nil'' ErrInvalidKey)
      else
        (case (case k of
                 EcdsaPublicKeyPtr p \<Rightarrow> Some p
               | EcdsaPublicKey v \<Rightarrow> Some (Some v)
               | _ \<Rightarrow> None) of
           None \<Rightarrow> Fail (Wrap ''ecdsa: unsupported public key type (%T)'' ErrInvalidKey)
         | Some None \<Rightarrow> Panic
         | Some (Some pub) \<Rightarrow>
             (case Curve pub of
                None \<Rightarrow> Panic
              | Some c \<Rightarrow>
                  (let cBits = BitSize c in
                   if curveBits m \<noteq> cBits
                   then Fail (Wrap ''ecdsa: can't use the provided key with this signer instance, curve mismatch'' ErrInvalidKey)
                   else if int (length signature) \<noteq> 2 * keySize m
                   then Fail (Wrap ''ecdsa: invalid signature length'' ErrInvalidSignature)
                   else
                     (let r = SetBytes (take (nat (keySize m)) signature);
                          s = SetBytes (drop (nat (keySize m)) signature)
                      in if \<not> hashAvailable E (hash m) then Fail ErrHashUnavailable
                         else
                           (case hashSum E (hash m) msg of
                              Inl err \<Rightarrow> Fail (Wrap ''ecdsa: unable to compute protected content hash'' err)
                            | Inr digest \<Rightarrow>
                                if ecdsaVerify E pub digest r s then Return ()
                                else Fail ErrInvalidSignature))))))"

definition ed25519Signer_Name :: string where
  "ed25519Signer_Name = ''ed25519''"

definition ed25519Signer_Sign ::
  "env \<Rightarrow> byte list \<Rightarrow> key \<Rightarrow> SignOption list \<Rightarrow> byte list outcome" where
  "ed25519Signer_Sign E msg k opts =
     (if msg = [] then Fail (Wrap ''ed25519: provided msg is nil or empty'' ErrInvalidArgument)
      else if k = NilKey then Fail (Wrap ''ed25519: provided key is nil'' ErrInvalidKey)
      else
        (case (case k of
                 Ed25519PrivateKeyPtr p \<Rightarrow> Some p
               | Ed25519PrivateKey v \<Rightarrow> Some (Some v)
               | _ \<Rightarrow> None) of
           None \<Rightarrow> Fail (Wrap ''ed25519: unsupported private key type (%T)'' ErrInvalidKey)
         | Some None \<Rightarrow> Panic
         | Some (Some pk) \<Rightarrow>
             if length pk \<noteq> PrivateKeySize
             then Fail (Wrap ''ed25519: invalid key size'' ErrInvalidKey)
             else
               (let dopts = fold (\<lambda>opt d. opt d) opts \<lparr>randSource = CryptoRandReader\<rparr> in
                case ed25519Sign E (randSource dopts) pk msg of
                  Inl err \<Rightarrow> Fail (Wrap ''ed25519: unable to sign payload'' err)
                | Inr sig \<Rightarrow> Return sig)))"

definition ed25519Signer_Verify ::
  "env \<Rightarrow> byte list \<Rightarrow> byte list \<Rightarrow> key \<Rightarrow> unit outcome" where
  "ed25519Signer_Verify E msg signature k =
     (if msg = [] then Fail (Wrap ''ed25519: provided msg is nil or empty'' ErrInvalidArgument)
      else if signature = []
      then Fail (Wrap ''ed25519: provided signature is nil or empty'' ErrInvalidArgument)
      else if k = NilKey then Fail (Wrap ''ed25519: provided key is nil'' ErrInvalidKey)
      else
        (case (case k of
                 Ed25519PublicKeyPtr p \<Rightarrow> Some p
               | Ed25519PublicKey v \<Rightarrow> Some (Some v)
               | _ \<Rightarrow> None) of
           None \<Rightarrow> Fail (Wrap ''ed25519: unsupported public key type (%T)'' ErrInvalidKey)
         | Some None \<Rightarrow> Panic
         | Some (Some pub) \<Rightarrow>
             if length pub \<noteq> PublicKeySize
             then Fail (Wrap ''ed25519: invalid key size'' ErrInvalidKey)
             else if \<not> ed25519Verify E pub msg signature then Fail ErrInvalidSignature
             else Return ()))"

text \<open>The two types that implement the interface \<^verbatim>\<open>Algorithm\<close>, and its three methods.\<close>

datatype algorithm = Ed25519Signer | EcdsaSigner ecdsaSigner

fun Name :: "algorithm \<Rightarrow> string" where
  "Name Ed25519Signer = ed25519Signer_Name"
| "Name (EcdsaSigner m) = ecdsaSigner_Name m"

fun Sign :: "env \<Rightarrow> algorithm \<Rightarrow> byte list \<Rightarrow> key \<Rightarrow> SignOption list \<Rightarrow> byte list outcome" where
  "Sign E Ed25519Signer msg k opts = ed25519Signer_Sign E msg k opts"
| "Sign E (EcdsaSigner m) msg k opts = ecdsaSigner_Sign E m msg k opts"

fun Verify :: "env \<Rightarrow> algorithm \<Rightarrow> byte list \<Rightarrow> byte list \<Rightarrow> key \<Rightarrow> unit outcome" where
  "Verify E Ed25519Signer msg signature k = ed25519Signer_Verify E msg signature k"
| "Verify E (EcdsaSigner m) msg signature k = ecdsaSigner_Verify E m msg signature k"

section \<open>Package signatures: the registry\<close>

text \<open>
  Algorithm values are pointers. The store holds the allocated objects and the three
  package-level variables; a \<^verbatim>\<open>Builder\<close> is a closure that may read and extend it.
  The registry maps a name to the stored builder, which may be a nil function.
\<close>

record store =
  heap :: "nat \<rightharpoonup> algorithm"
  nextAddr :: nat
  varEd25519 :: "nat option"
  varECDSA_P256_SHA256 :: "nat option"
  varECDSA_P384_SHA384 :: "nat option"

type_synonym Builder = "store \<Rightarrow> nat option \<times> store"

record world =
  mem :: store
  registry :: "string \<rightharpoonup> Builder option"

definition new :: "store \<Rightarrow> algorithm \<Rightarrow> nat \<times> store" where
  "new s a = (nextAddr s, s\<lparr>heap := (heap s)(nextAddr s \<mapsto> a), nextAddr := Suc (nextAddr s)\<rparr>)"

definition RegisterAlgorithm :: "world \<Rightarrow> string \<Rightarrow> Builder option \<Rightarrow> world" where
  "RegisterAlgorithm w n b = w\<lparr>registry := (registry w)(n \<mapsto> b)\<rparr>"

definition GetAlgorithm :: "world \<Rightarrow> string \<Rightarrow> nat option outcome \<times> world" where
  "GetAlgorithm w n =
     (case registry w n of
        Some (Some b) \<Rightarrow> (let (alg, s) = b (mem w) in (Return alg, w\<lparr>mem := s\<rparr>))
      | Some None \<Rightarrow> (Panic, w)
      | None \<Rightarrow> (Return None, w))"

definition emptyWorld :: world where
  "emptyWorld =
     \<lparr>mem = \<lparr>heap = Map.empty, nextAddr = 0, varEd25519 = None,
             varECDSA_P256_SHA256 = None, varECDSA_P384_SHA384 = None\<rparr>,
      registry = Map.empty\<rparr>"

definition ECDSA_P256_SHA256 :: ecdsaSigner where
  "ECDSA_P256_SHA256 =
     \<lparr>name = ''ecdsa-sha2-nistp256'', hash = SHA256, curveBits = 256, keySize = 32\<rparr>"

definition ECDSA_P384_SHA384 :: ecdsaSigner where
  "ECDSA_P384_SHA384 =
     \<lparr>name = ''ecdsa-sha384-nistp384'', hash = SHA384, curveBits = 384, keySize = 48\<rparr>"

text \<open>
  \<^verbatim>\<open>init\<close>: each variable is assigned a newly allocated signer, and a builder that
  returns the variable's value is registered under the signer's name.
\<close>

definition init :: "world \<Rightarrow> world" where
  "init w0 =
     (let (a1, s1) = new (mem w0) Ed25519Signer;
          w1 = w0\<lparr>mem := s1\<lparr>varEd25519 := Some a1\<rparr>\<rparr>;
          w2 = RegisterAlgorithm w1 (Name Ed25519Signer) (Some (\<lambda>s. (varEd25519 s, s)));
          (a2, s2) = new (mem w2) (EcdsaSigner ECDSA_P256_SHA256);
          w3 = w2\<lparr>mem := s2\<lparr>varECDSA_P256_SHA256 := Some a2\<rparr>\<rparr>;
          w4 = RegisterAlgorithm w3 (Name (EcdsaSigner ECDSA_P256_SHA256))
                 (Some (\<lambda>s. (varECDSA_P256_SHA256 s, s)));
          (a3, s3) = new (mem w4) (EcdsaSigner ECDSA_P384_SHA384);
          w5 = w4\<lparr>mem := s3\<lparr>varECDSA_P384_SHA384 := Some a3\<rparr>\<rparr>
      in RegisterAlgorithm w5 (Name (EcdsaSigner ECDSA_P384_SHA384))
           (Some (\<lambda>s. (varECDSA_P384_SHA384 s, s))))"

section \<open>Test vectors\<close>

text \<open>
  The values below come from the repository's tests (the Ed25519 seed, public key,
  envelopes and signature) and from the definition of the curve P-256 (its prime, its
  coefficient and its base point). They serve to run the code on concrete inputs.
\<close>

definition testSeed :: "byte list" where
  "testSeed =
    [0x33, 0x32, 0x2d, 0x63, 0x68, 0x61, 0x72, 0x61, 0x63, 0x74, 0x65, 0x72, 0x73, 0x2d, 0x64, 0x65,
     0x74, 0x65, 0x72, 0x6d, 0x69, 0x6e, 0x69, 0x73, 0x74, 0x69, 0x63, 0x2d, 0x73, 0x65, 0x65, 0x64]"

definition testPub :: "byte list" where
  "testPub =
    [0x95, 0x89, 0x64, 0x2d, 0x1c, 0x89, 0x0b, 0x45, 0x2e, 0x3c, 0x40, 0x84, 0xaa, 0xa1, 0x94, 0x05,
     0xa0, 0xc7, 0x8f, 0xca, 0x89, 0xf8, 0x62, 0xe3, 0x66, 0xce, 0xd3, 0x47, 0x02, 0xa1, 0x19, 0xc6]"

definition testMsg :: "byte list" where
  "testMsg = [0x74, 0x65, 0x73, 0x74]"

definition testSignature :: "byte list" where
  "testSignature =
    [0x84, 0xfd, 0xee, 0xf9, 0xde, 0xb4, 0xf6, 0x7a, 0x7f, 0x73, 0xbc, 0xd0, 0x2e, 0x68, 0x74, 0xb4,
     0xaa, 0x1d, 0x58, 0x91, 0xd8, 0x4f, 0xa1, 0x78, 0x30, 0xe4, 0x08, 0x04, 0xe0, 0x8b, 0x5c, 0x84,
     0xec, 0x2f, 0x50, 0xcc, 0xfe, 0xf1, 0xcb, 0x6c, 0xa6, 0xb5, 0xd9, 0x04, 0xeb, 0x4b, 0x78, 0x91,
     0xb1, 0xef, 0x38, 0x48, 0x6f, 0x67, 0xb7, 0xea, 0x4a, 0xdd, 0x98, 0xa6, 0xc6, 0xc1, 0x18, 0x0b]"

definition envelopePublic :: "byte list" where
  \<open>envelopePublic = map of_char
     ''{"public":"lYlkLRyJC0UuPECEqqGUBaDHj8qJ+GLjZs7TRwKhGcY="}''\<close>

definition envelopePair :: "byte list" where
  \<open>envelopePair = map of_char
     ''{"public":"lYlkLRyJC0UuPECEqqGUBaDHj8qJ+GLjZs7TRwKhGcY=","private":"MzItY2hhcmFjdGVycy1kZXRlcm1pbmlzdGljLXNlZWSViWQtHIkLRS48QISqoZQFoMePyon4YuNmztNHAqEZxg=="}''\<close>

definition zeroPoint :: "byte list" where
  "zeroPoint =
    [0x00, 0x00, 0x00, 0x00, 0x00, 0x00, 0x00, 0x00, 0x00, 0x00, 0x00, 0x00, 0x00, 0x00, 0x00, 0x00,
     0x00, 0x00, 0x00, 0x00, 0x00, 0x00, 0x00, 0x00, 0x00, 0x00, 0x00, 0x00, 0x00, 0x00, 0x00, 0x00]"

definition onePoint :: "byte list" where
  "onePoint =
    [0x01, 0x00, 0x00, 0x00, 0x00, 0x00, 0x00, 0x00, 0x00, 0x00, 0x00, 0x00, 0x00, 0x00, 0x00, 0x00,
     0x00, 0x00, 0x00, 0x00, 0x00, 0x00, 0x00, 0x00, 0x00, 0x00, 0x00, 0x00, 0x00, 0x00, 0x00, 0x00]"

definition p256P :: int where
  "p256P = 0xffffffff00000001000000000000000000000000ffffffffffffffffffffffff"

definition p256B :: int where
  "p256B = 0x5ac635d8aa3a93e7b3ebbd55769886bc651d06b0cc53b0f63bce3c3e27d2604b"

definition p256Gx :: int where
  "p256Gx = 0x6b17d1f2e12c4247f8bce6e563a440f277037d812deb33a0f4a13945d898c296"

definition p256Gy :: int where
  "p256Gy = 0x4fe342e2fe1a7f9b8ee7eb4a7c0f9e162bce33576b315ececbb6406837bf51f5"

definition p256GxBytes :: "byte list" where
  "p256GxBytes =
    [0x6b, 0x17, 0xd1, 0xf2, 0xe1, 0x2c, 0x42, 0x47, 0xf8, 0xbc, 0xe6, 0xe5, 0x63, 0xa4, 0x40, 0xf2,
     0x77, 0x03, 0x7d, 0x81, 0x2d, 0xeb, 0x33, 0xa0, 0xf4, 0xa1, 0x39, 0x45, 0xd8, 0x98, 0xc2, 0x96]"

definition p256GyBytes :: "byte list" where
  "p256GyBytes =
    [0x4f, 0xe3, 0x42, 0xe2, 0xfe, 0x1a, 0x7f, 0x9b, 0x8e, 0xe7, 0xeb, 0x4a, 0x7c, 0x0f, 0x9e, 0x16,
     0x2b, 0xce, 0x33, 0x57, 0x6b, 0x31, 0x5e, 0xce, 0xcb, 0xb6, 0x40, 0x68, 0x37, 0xbf, 0x51, 0xf5]"

definition scalarOne :: "byte list" where
  "scalarOne =
    [0x00, 0x00, 0x00, 0x00, 0x00, 0x00, 0x00, 0x00, 0x00, 0x00, 0x00, 0x00, 0x00, 0x00, 0x00, 0x00,
     0x00, 0x00, 0x00, 0x00, 0x00, 0x00, 0x00, 0x00, 0x00, 0x00, 0x00, 0x00, 0x00, 0x00, 0x00, 0x01]"

definition p256IsOnCurve :: "int \<Rightarrow> int \<Rightarrow> bool" where
  "p256IsOnCurve x y =
     (0 \<le> x \<and> x < p256P \<and> 0 \<le> y \<and> y < p256P \<and>
      (y * y) mod p256P = (x * x * x - 3 * x + p256B) mod p256P)"

definition sha256Test :: "byte list" where
  "sha256Test =
    [0x9f, 0x86, 0xd0, 0x81, 0x88, 0x4c, 0x7d, 0x65, 0x9a, 0x2f, 0xea, 0xa0, 0xc5, 0x5a, 0xd0, 0x15,
     0xa3, 0xbf, 0x4f, 0x1b, 0x2b, 0x0b, 0x82, 0x2c, 0xd1, 0x5d, 0x6c, 0x15, 0xb0, 0xf0, 0x0a, 0x08]"

definition sigR :: int where
  "sigR = 0x6b17d1f2e12c4247f8bce6e563a440f277037d812deb33a0f4a13945d898c296"

definition sigS :: int where
  "sigS = 0xa9ea2756978bfac92ecd18628ff11085ddbd1eeb1df1748d244da988d25a74d"

text \<open>
  An environment that tabulates the library on these vectors: the two envelopes of
  \<^verbatim>\<open>TestFromPrivateKey\<close> as the first JSON value of a stream (the decoder reads one
  value and leaves what follows unread), the public key of the test seed, the base
  point of P-256 as the public key of the scalar 1, the SHA-256 digest of "test", the
  Ed25519 signature of the tests and an ECDSA signature of "test" under the scalar 1.
  On every other input the table answers with a failure.
\<close>

definition vectorsJsonDecode :: "byte list \<Rightarrow> error + jsonKeyPair" where
  "vectorsJsonDecode bs =
     (if take (length envelopePublic) bs = envelopePublic
      then Inr \<lparr>Public = testPub, Private = None\<rparr>
      else if take (length envelopePair) bs = envelopePair
      then Inr \<lparr>Public = testPub, Private = Some (testSeed @ testPub)\<rparr>
      else Inl (New ''json: input outside the table''))"

definition testVectors :: env where
  "testVectors =
     \<lparr>jsonDecode = vectorsJsonDecode,
      lowOrderPoints = [zeroPoint, onePoint],
      ed25519PublicFromSeed = (\<lambda>seed. if seed = testSeed then testPub else []),
      Unmarshal = (\<lambda>c bs. if bs = 4 # p256GxBytes @ p256GyBytes
                            then Some (p256Gx, p256Gy) else None),
      UnmarshalCompressed = (\<lambda>c bs. if bs = 3 # p256GxBytes
                                      then Some (p256Gx, p256Gy) else None),
      IsOnCurve = (\<lambda>c x y. p256IsOnCurve x y),
      ScalarBaseMult = (\<lambda>c k. if k = scalarOne then (p256Gx, p256Gy) else (0, 0)),
      hashAvailable = (\<lambda>h. True),
      hashSum = (\<lambda>h m. if h = SHA256 \<and> m = testMsg then Inr sha256Test
                         else Inl (New ''hash: input outside the table'')),
      ecdsaSign = (\<lambda>rd pk digest. if D pk = 1 \<and> digest = sha256Test then Inr (sigR, sigS)
                                   else Inl (New ''ecdsa: input outside the table'')),
      ecdsaVerify = (\<lambda>pub digest r s. X pub = p256Gx \<and> Y pub = p256Gy \<and>
                                       digest = sha256Test \<and> r = sigR \<and> s = sigS),
      ed25519Sign = (\<lambda>rd pk m. if pk = testSeed @ testPub \<and> m = testMsg
                                then Inr testSignature
                                else Inl (New ''ed25519: input outside the table'')),
      ed25519Verify = (\<lambda>pub m sg. pub = testPub \<and> m = testMsg \<and> sg = testSignature)\<rparr>"

text \<open>Inputs and predicates used to state the properties.\<close>

definition oversizedRecord :: tufKey where
  "oversizedRecord =
     \<lparr>Type = KeyTypeEd25519, Value = envelopePublic @ replicate MaxKeyInputSize 0x20\<rparr>"

definition largeBuffer :: "byte list" where
  "largeBuffer = replicate (MaxKeyInputSize + 1) 0"

definition publicRecord :: tufKey where
  "publicRecord = \<lparr>Type = KeyTypeEd25519, Value = envelopePublic\<rparr>"

definition pairRecord :: tufKey where
  "pairRecord = \<lparr>Type = KeyTypeEd25519, Value = envelopePair\<rparr>"

definition rsaRecord :: tufKey where
  "rsaRecord = \<lparr>Type = KeyTypeRSASSA_PSS_SHA256, Value = envelopePublic\<rparr>"

definition rsaPairRecord :: tufKey where
  "rsaPairRecord = \<lparr>Type = KeyTypeRSASSA_PSS_SHA256, Value = envelopePair\<rparr>"

definition isPrivateKeyObject :: "key \<Rightarrow> bool" where
  "isPrivateKeyObject k =
     (case k of
        Ed25519PrivateKey v \<Rightarrow> True
      | Ed25519PrivateKeyPtr p \<Rightarrow> p \<noteq> None
      | EcdsaPrivateKey v \<Rightarrow> True
      | EcdsaPrivateKeyPtr p \<Rightarrow> p \<noteq> None
      | _ \<Rightarrow> False)"

definition mismatchedPair :: jsonKeyPair where
  "mismatchedPair = \<lparr>Public = testPub, Private = Some (testSeed @ zeroPoint)\<rparr>"

definition basePointBytes :: "byte list" where
  "basePointBytes = 4 # p256GxBytes @ p256GyBytes"

definition basePointKey :: ecdsaPublicKey where
  "basePointKey = \<lparr>Curve = Some P256, X = p256Gx, Y = p256Gy\<rparr>"

definition scalarOneKey :: ecdsaPrivateKey where
  "scalarOneKey = \<lparr>PublicKey = basePointKey, D = 1\<rparr>"

definition sigRBytes :: "byte list" where
  "sigRBytes =
    [0x6b, 0x17, 0xd1, 0xf2, 0xe1, 0x2c, 0x42, 0x47, 0xf8, 0xbc, 0xe6, 0xe5, 0x63, 0xa4, 0x40, 0xf2,
     0x77, 0x03, 0x7d, 0x81, 0x2d, 0xeb, 0x33, 0xa0, 0xf4, 0xa1, 0x39, 0x45, 0xd8, 0x98, 0xc2, 0x96]"

definition sigSBytes :: "byte list" where
  "sigSBytes =
    [0x0a, 0x9e, 0xa2, 0x75, 0x69, 0x78, 0xbf, 0xac, 0x92, 0xec, 0xd1, 0x86, 0x28, 0xff, 0x11, 0x08,
     0x5d, 0xdb, 0xd1, 0xee, 0xb1, 0xdf, 0x17, 0x48, 0xd2, 0x44, 0xda, 0x98, 0x8d, 0x25, 0xa7, 0x4d]"

section \<open>Big-endian bytes\<close>

lemma length_bigEndian: "length (bigEndian n x) = n"
  by (induction n arbitrary: x) simp_all

lemma natOfBytes_snoc: "natOfBytes (bs @ [b]) = natOfBytes bs * 256 + unat b"
  by (simp add: natOfBytes_def)

lemma natOfBytes_bigEndian: "x < 256 ^ n \<Longrightarrow> natOfBytes (bigEndian n x) = x"
proof (induction n arbitrary: x)
  case 0
  then show ?case by (simp add: natOfBytes_def)
next
  case (Suc n)
  from Suc.prems have "x div 256 < 256 ^ n"
    by (simp add: less_mult_imp_div_less mult.commute)
  then have "natOfBytes (bigEndian n (x div 256)) = x div 256"
    by (rule Suc.IH)
  moreover have "unat (of_nat (x mod 256) :: byte) = x mod 256"
    by (simp add: unat_of_nat)
  ultimately show ?case
    by (simp add: natOfBytes_snoc)
qed

lemma natOfBytes_bound: "natOfBytes bs < 256 ^ length bs"
proof (induction bs rule: rev_induct)
  case Nil
  then show ?case by (simp add: natOfBytes_def)
next
  case (snoc b bs)
  have "unat b < 256" using unsigned_less [of b, where ?'a = nat] by simp
  with snoc show ?case by (simp add: natOfBytes_snoc)
qed

lemma bigEndian_natOfBytes: "bigEndian (length bs) (natOfBytes bs) = bs"
proof (induction bs rule: rev_induct)
  case Nil
  then show ?case by simp
next
  case (snoc b bs)
  have b: "unat b < 256" using unsigned_less [of b, where ?'a = nat] by simp
  then have "(natOfBytes bs * 256 + unat b) div 256 = natOfBytes bs"
    and "(natOfBytes bs * 256 + unat b) mod 256 = unat b"
    by simp_all
  with snoc show ?case by (simp add: natOfBytes_snoc)
qed

lemma FillBytes_SetBytes: "length bs = n \<Longrightarrow> FillBytes (SetBytes bs) n = Some bs"
  using natOfBytes_bound [of bs] bigEndian_natOfBytes [of bs]
  by (auto simp: FillBytes_def SetBytes_def)

lemma SetBytes_FillBytes:
  "FillBytes x n = Some bs \<Longrightarrow> length bs = n \<and> SetBytes bs = \<bar>x\<bar>"
  by (auto simp: FillBytes_def SetBytes_def length_bigEndian natOfBytes_bigEndian
      split: if_splits)

section \<open>Facts about the test vectors\<close>

lemma SetBytes_sigRBytes: "SetBytes sigRBytes = sigR"
  by (simp add: SetBytes_def natOfBytes_def sigRBytes_def sigR_def)

lemma SetBytes_sigSBytes: "SetBytes sigSBytes = sigS"
  by (simp add: SetBytes_def natOfBytes_def sigSBytes_def sigS_def)

lemma length_sigBytes: "length sigRBytes = 32" "length sigSBytes = 32"
  by (simp_all add: sigRBytes_def sigSBytes_def)

lemma FillBytes_sig: "FillBytes sigR 32 = Some sigRBytes" "FillBytes sigS 32 = Some sigSBytes"
  using FillBytes_SetBytes [of sigRBytes 32] FillBytes_SetBytes [of sigSBytes 32]
  by (simp_all add: SetBytes_sigRBytes SetBytes_sigSBytes length_sigBytes)

lemma keyBytes_256: "(256::int) sdiv 8 + (if (256::int) smod 8 > 0 then 1 else 0) = 32"
  by (simp add: signed_divide_int_def signed_modulo_int_def)

lemma keyBytes_384: "(384::int) sdiv 8 + (if (384::int) smod 8 > 0 then 1 else 0) = 48"
  by (simp add: signed_divide_int_def signed_modulo_int_def)

lemma testMsg_nonempty: "testMsg \<noteq> []" by (simp add: testMsg_def)

lemma Sign_scalarOne:
  "ecdsaSigner_Sign testVectors ECDSA_P256_SHA256 testMsg (EcdsaPrivateKeyPtr (Some scalarOneKey)) []
     = Return (sigRBytes @ sigSBytes)"
  by (simp add: ecdsaSigner_Sign_def testMsg_nonempty scalarOneKey_def basePointKey_def P256_def
      ECDSA_P256_SHA256_def testVectors_def keyBytes_256 FillBytes_sig)

lemma length_testSignature: "length testSignature = 64"
  by (simp add: testSignature_def)

lemma sig_in_range: "0 \<le> sigR" "sigR < 2 ^ 256" "0 \<le> sigS" "sigS < 2 ^ 256"
  by (simp_all add: sigR_def sigS_def)


lemma length_zeroPoint: "length zeroPoint = 32" by (simp add: zeroPoint_def)

lemma base_point_on_curve: "p256IsOnCurve p256Gx p256Gy"
  by (simp add: p256IsOnCurve_def p256Gx_def p256Gy_def p256P_def p256B_def)

lemma one_one_off_curve: "\<not> p256IsOnCurve 1 1"
  by (simp add: p256IsOnCurve_def p256P_def p256B_def)

lemma curveByteSize_P256: "curveByteSize P256 = 32"
  by (simp add: curveByteSize_def P256_def Let_def signed_divide_int_def signed_modulo_int_def)

lemma KeyType_distinct:
  "KeyTypeECDSA_SHA2_P256 \<noteq> KeyTypeEd25519" "KeyTypeRSASSA_PSS_SHA256 \<noteq> KeyTypeEd25519"
  "KeyTypeRSASSA_PSS_SHA256 \<noteq> KeyTypeECDSA_SHA2_P256"
  by (simp_all add: KeyTypeECDSA_SHA2_P256_def KeyTypeEd25519_def KeyTypeRSASSA_PSS_SHA256_def)

lemma unmarshal_basePoint:
  "unmarshalECDSAKey testVectors (Some \<lparr>Public = basePointBytes, Private = None\<rparr>)
     = Inr (EcdsaPublicKeyPtr (Some \<lparr>Curve = Some P256, X = p256Gx, Y = p256Gy\<rparr>))"
  by (simp add: unmarshalECDSAKey_def basePointBytes_def testVectors_def base_point_on_curve)

lemma unmarshal_basePoint_private:
  "unmarshalECDSAKey testVectors (Some \<lparr>Public = basePointBytes, Private = Some scalarOne\<rparr>)
     = Inr (EcdsaPrivateKeyPtr (Some \<lparr>PublicKey = \<lparr>Curve = Some P256, X = p256Gx, Y = p256Gy\<rparr>, D = 1\<rparr>))"
proof -
  have l: "length scalarOne = 32" by (simp add: scalarOne_def)
  have d: "SetBytes scalarOne = 1" by (simp add: SetBytes_def natOfBytes_def scalarOne_def)
  show ?thesis
    by (simp add: unmarshalECDSAKey_def basePointBytes_def testVectors_def base_point_on_curve
        curveByteSize_P256 l d)
qed



lemma length_envelopePublic: "length envelopePublic = 57"
  by (simp add: envelopePublic_def)

lemma length_envelopePair: "length envelopePair = 158"
  by (simp add: envelopePair_def)

lemma length_testPub: "length testPub = 32"
  by (simp add: testPub_def)

lemma length_testSeed: "length testSeed = 32"
  by (simp add: testSeed_def)

lemma envelopePublic_not_prefix_of_pair:
  "take 57 (envelopePair @ rest) \<noteq> envelopePublic"
  by (simp add: envelopePair_def envelopePublic_def)

lemma vectorsJsonDecode_public:
  "vectorsJsonDecode (take MaxKeyInputSize (envelopePublic @ rest))
     = Inr \<lparr>Public = testPub, Private = None\<rparr>"
  by (simp add: vectorsJsonDecode_def MaxKeyInputSize_def length_envelopePublic)

lemma vectorsJsonDecode_pair:
  "vectorsJsonDecode (take MaxKeyInputSize (envelopePair @ rest))
     = Inr \<lparr>Public = testPub, Private = Some (testSeed @ testPub)\<rparr>"
  using envelopePublic_not_prefix_of_pair [of rest]
  by (simp add: vectorsJsonDecode_def MaxKeyInputSize_def length_envelopePublic
      length_envelopePair)

lemma zeros_not_envelope:
  "0 < n \<Longrightarrow> take n (replicate m (0::byte)) \<noteq> envelopePublic
           \<and> take n (replicate m (0::byte)) \<noteq> envelopePair"
  by (cases m) (auto simp: envelopePublic_def envelopePair_def take_Cons')

lemma vectorsJsonDecode_largeBuffer:
  "vectorsJsonDecode (take MaxKeyInputSize largeBuffer)
     = Inl (New ''json: input outside the table'')"
proof -
  have "min MaxKeyInputSize (MaxKeyInputSize + 1) = MaxKeyInputSize"
    by simp
  then have t: "take MaxKeyInputSize largeBuffer = replicate MaxKeyInputSize 0"
    by (simp only: largeBuffer_def take_replicate)
  show ?thesis
    unfolding t vectorsJsonDecode_def length_envelopePublic length_envelopePair
    using zeros_not_envelope [of 57 MaxKeyInputSize] zeros_not_envelope [of 158 MaxKeyInputSize]
    by (simp del: take_replicate)
qed

lemma testPub_not_low_order: "\<not> isEdLowOrder testVectors testPub"
  by (simp add: isEdLowOrder_def testVectors_def testPub_def zeroPoint_def onePoint_def)

lemma unmarshal_testPub:
  "unmarshalEd25519Key testVectors (Some \<lparr>Public = testPub, Private = None\<rparr>)
     = Inr (Ed25519PublicKey testPub)"
  by (simp add: unmarshalEd25519Key_def testPub_not_low_order length_testPub
      PublicKeySize_def)

lemma generate_testSeed:
  "length suffix = 32 \<Longrightarrow>
   ed25519GenerateKey testVectors (testSeed @ suffix) = Inr (testPub, testSeed @ testPub)"
  by (auto simp: ed25519GenerateKey_def SeedSize_def length_testSeed testVectors_def)

lemma unmarshal_testPair:
  "length suffix = 32 \<Longrightarrow>
   unmarshalEd25519Key testVectors (Some \<lparr>Public = testPub, Private = Some (testSeed @ suffix)\<rparr>)
     = Inr (Ed25519PrivateKey (testSeed @ suffix))"
  by (simp add: unmarshalEd25519Key_def testPub_not_low_order length_testPub
      length_testSeed PublicKeySize_def PrivateKeySize_def generate_testSeed)

lemma From_publicRecord:
  "FromPublicKey testVectors (Some publicRecord) = Inr (Ed25519PublicKey testPub)"
  using vectorsJsonDecode_public [of "[]"]
  by (simp add: FromPublicKey_def publicRecord_def testVectors_def [THEN arg_cong, of jsonDecode]
      unmarshal_testPub)

lemma From_pairRecord:
  "FromPublicKey testVectors (Some pairRecord) = Inr (Ed25519PrivateKey (testSeed @ testPub))"
  using vectorsJsonDecode_pair [of "[]"]
  by (simp add: FromPublicKey_def pairRecord_def testVectors_def [THEN arg_cong, of jsonDecode]
      unmarshal_testPair length_testPub)

lemma jsonDecode_publicRecord:
  "jsonDecode testVectors (take MaxKeyInputSize (Value publicRecord))
     = Inr \<lparr>Public = testPub, Private = None\<rparr>"
  using vectorsJsonDecode_public [of "[]"]
  by (simp add: publicRecord_def testVectors_def)

lemma jsonDecode_pairRecord:
  "jsonDecode testVectors (take MaxKeyInputSize (Value pairRecord))
     = Inr \<lparr>Public = testPub, Private = Some (testSeed @ testPub)\<rparr>"
  using vectorsJsonDecode_pair [of "[]"]
  by (simp add: pairRecord_def testVectors_def)

section \<open>The decoder: shape of its results\<close>

lemma unmarshalEd25519Key_shape:
  "unmarshalEd25519Key E (Some kp) = Inr k \<Longrightarrow>
     (case Private kp of None \<Rightarrow> k = Ed25519PublicKey (Public kp)
                       | Some priv \<Rightarrow> k = Ed25519PrivateKey priv)"
  by (auto simp: unmarshalEd25519Key_def
      split: option.splits if_splits sum.splits prod.splits)

lemma unmarshalECDSAKey_shape:
  "unmarshalECDSAKey E (Some kp) = Inr k \<Longrightarrow>
     \<exists>x y. IsOnCurve E P256 x y \<and>
       (case Private kp of
          None \<Rightarrow> k = EcdsaPublicKeyPtr (Some \<lparr>Curve = Some P256, X = x, Y = y\<rparr>)
        | Some priv \<Rightarrow> k = EcdsaPrivateKeyPtr
              (Some \<lparr>PublicKey = \<lparr>Curve = Some P256, X = x, Y = y\<rparr>, D = SetBytes priv\<rparr>))"
  by (auto simp: unmarshalECDSAKey_def Let_def
      split: option.splits if_splits sum.splits prod.splits list.splits)

lemma unmarshalRSAKey_shape: "unmarshalRSAKey E (Some kp) = Inr k \<Longrightarrow> k = NilKey"
  by (simp add: unmarshalRSAKey_def)

lemma FromPublicKey_dispatch:
  "jsonDecode E (take MaxKeyInputSize (Value t)) = Inr kp \<Longrightarrow>
   FromPublicKey E (Some t) = Inr k \<Longrightarrow>
     unmarshalEd25519Key E (Some kp) = Inr k \<or> unmarshalECDSAKey E (Some kp) = Inr k
     \<or> unmarshalRSAKey E (Some kp) = Inr k"
  by (auto simp: FromPublicKey_def split: if_splits)

section \<open>Properties of the decoder\<close>

text \<open>
  C1. The claim: for every key record whose declared type is the RSA type, both entry
  points return an "unsupported key type" error and never a success with a nil key.
  The code does otherwise: \<^verbatim>\<open>unmarshalRSAKey\<close> ends in \<^verbatim>\<open>return nil, nil\<close>, so a
  record of the RSA type whose envelope decodes comes back as a nil key with no error
  from both entry points. The theorem runs them on such a record.
\<close>

theorem rsa_record_decodes_to_nil_key:
  "FromPrivateKey testVectors (Some rsaRecord) = Inr NilKey
   \<and> FromPublicKey testVectors (Some rsaRecord) = Inr NilKey"
  using vectorsJsonDecode_public [of "[]"]
  by (simp add: FromPrivateKey_def FromPublicKey_def rsaRecord_def testVectors_def
      unmarshalRSAKey_def KeyTypeRSASSA_PSS_SHA256_def KeyTypeEd25519_def
      KeyTypeECDSA_SHA2_P256_def)

text \<open>
  C3. The claim: an envelope whose value is longer than \<open>MaxKeyInputSize\<close> fails to
  decode whatever its content, which is also what the test "too-large" of
  \<^verbatim>\<open>TestFromPrivateKey\<close> expects of a value of \<open>MaxKeyInputSize + 1\<close> bytes. The code
  does otherwise: \<^verbatim>\<open>io.LimitReader\<close> cuts the value to its first \<open>MaxKeyInputSize\<close>
  bytes and those are decoded. The record below carries the public envelope of the
  tests followed by 1 MiB of spaces: it is longer than the limit, and both entry points
  return the key.
\<close>

theorem oversized_envelope_decodes:
  "MaxKeyInputSize < length (Value oversizedRecord)
   \<and> FromPrivateKey testVectors (Some oversizedRecord) = Inr (Ed25519PublicKey testPub)
   \<and> FromPublicKey testVectors (Some oversizedRecord) = Inr (Ed25519PublicKey testPub)"
proof -
  have d: "jsonDecode testVectors (take MaxKeyInputSize (Value oversizedRecord))
             = Inr \<lparr>Public = testPub, Private = None\<rparr>"
    using vectorsJsonDecode_public [of "replicate MaxKeyInputSize 0x20"]
    by (simp add: oversizedRecord_def testVectors_def)
  have l: "MaxKeyInputSize < length (Value oversizedRecord)"
    by (simp add: oversizedRecord_def length_envelopePublic)
  have t: "Type oversizedRecord = KeyTypeEd25519"
    by (simp add: oversizedRecord_def)
  show ?thesis
    using l by (simp add: FromPrivateKey_def FromPublicKey_def d t unmarshal_testPub)
qed

text \<open>
  What the limit does: the result for a value is the result for its first
  \<open>MaxKeyInputSize\<close> bytes, and when those bytes fail to decode both entry points fail
  with the decoder's error wrapped.
\<close>

lemma limit_truncates_value:
  "FromPrivateKey E (Some k)
     = FromPrivateKey E (Some (k\<lparr>Value := take MaxKeyInputSize (Value k)\<rparr>))
   \<and> FromPublicKey E (Some k)
       = FromPublicKey E (Some (k\<lparr>Value := take MaxKeyInputSize (Value k)\<rparr>))
   \<and> (jsonDecode E (take MaxKeyInputSize (Value k)) = Inl e \<longrightarrow>
        FromPrivateKey E (Some k) = Inl (Wrap ''key: unable to decode the key components'' e)
        \<and> FromPublicKey E (Some k) = Inl (Wrap ''key: unable to decode the key components'' e))"
  by (simp add: FromPrivateKey_def FromPublicKey_def split: sum.splits)

text \<open>
  The buffer of the test "too-large", \<open>MaxKeyInputSize + 1\<close> zero bytes, fails because
  its first bytes are not JSON, not because of its length.
\<close>

lemma too_large_test_buffer_fails:
  "jsonDecode testVectors (take MaxKeyInputSize largeBuffer)
     = Inl (New ''json: input outside the table'')
   \<and> FromPrivateKey testVectors (Some \<lparr>Type = KeyTypeEd25519, Value = largeBuffer\<rparr>)
       = Inl (Wrap ''key: unable to decode the key components''
               (New ''json: input outside the table''))
   \<and> FromPublicKey testVectors (Some \<lparr>Type = KeyTypeEd25519, Value = largeBuffer\<rparr>)
       = Inl (Wrap ''key: unable to decode the key components''
               (New ''json: input outside the table''))"
proof -
  have d: "jsonDecode testVectors
             (take MaxKeyInputSize (Value \<lparr>Type = KeyTypeEd25519, Value = largeBuffer\<rparr>))
           = Inl (New ''json: input outside the table'')"
    using vectorsJsonDecode_largeBuffer by (simp add: testVectors_def)
  have "FromPrivateKey testVectors (Some \<lparr>Type = KeyTypeEd25519, Value = largeBuffer\<rparr>)
          = Inl (Wrap ''key: unable to decode the key components''
                  (New ''json: input outside the table''))
        \<and> FromPublicKey testVectors (Some \<lparr>Type = KeyTypeEd25519, Value = largeBuffer\<rparr>)
          = Inl (Wrap ''key: unable to decode the key components''
                  (New ''json: input outside the table''))"
    using d limit_truncates_value
            [of testVectors "\<lparr>Type = KeyTypeEd25519, Value = largeBuffer\<rparr>"
                "New ''json: input outside the table''"]
    by blast
  then show ?thesis
    using vectorsJsonDecode_largeBuffer by (simp add: testVectors_def)
qed

text \<open>
  The two entry points on the same record: they fail together and succeed together, and
  on success they return the same key. When a key other than nil is returned for an
  envelope with a private component, it is a private-key object; an envelope with only
  a public component that \<^verbatim>\<open>FromPublicKey\<close> accepts is accepted by
  \<^verbatim>\<open>FromPrivateKey\<close> too, which returns that public key.
\<close>

lemma entry_points_agree:
  "(isl (FromPrivateKey E r) \<longleftrightarrow> isl (FromPublicKey E r))
   \<and> (\<forall>k. FromPrivateKey E r = Inr k \<longleftrightarrow> FromPublicKey E r = Inr k)
   \<and> (\<forall>t kp k. r = Some t \<and> jsonDecode E (take MaxKeyInputSize (Value t)) = Inr kp
          \<and> Private kp \<noteq> None \<and> FromPublicKey E r = Inr k \<and> k \<noteq> NilKey
        \<longrightarrow> isPrivateKeyObject k)
   \<and> (\<forall>t kp k. r = Some t \<and> jsonDecode E (take MaxKeyInputSize (Value t)) = Inr kp
          \<and> Private kp = None \<and> FromPublicKey E r = Inr k
        \<longrightarrow> FromPrivateKey E r = Inr k \<and> \<not> isPrivateKeyObject k)"
proof -
  have same: "\<And>k. FromPrivateKey E r = Inr k \<longleftrightarrow> FromPublicKey E r = Inr k"
    by (auto simp: FromPrivateKey_def FromPublicKey_def
        split: option.splits sum.splits if_splits)
  have fails: "isl (FromPrivateKey E r) \<longleftrightarrow> isl (FromPublicKey E r)"
    by (auto simp: FromPrivateKey_def FromPublicKey_def
        split: option.splits sum.splits if_splits)
  have priv: "isPrivateKeyObject k"
    if "jsonDecode E (take MaxKeyInputSize (Value t)) = Inr kp" "Private kp \<noteq> None"
       "FromPublicKey E (Some t) = Inr k" "k \<noteq> NilKey" for t kp k
    using FromPublicKey_dispatch [OF that(1) that(3)] that(2) that(4)
    by (auto simp: isPrivateKeyObject_def
        dest!: unmarshalEd25519Key_shape unmarshalECDSAKey_shape unmarshalRSAKey_shape)
  have pub: "\<not> isPrivateKeyObject k"
    if "jsonDecode E (take MaxKeyInputSize (Value t)) = Inr kp" "Private kp = None"
       "FromPublicKey E (Some t) = Inr k" for t kp k
    using FromPublicKey_dispatch [OF that(1) that(3)] that(2)
    by (auto simp: isPrivateKeyObject_def
        dest!: unmarshalEd25519Key_shape unmarshalECDSAKey_shape unmarshalRSAKey_shape)
  show ?thesis using same fails priv pub by blast
qed

text \<open>
  The two valid records of \<^verbatim>\<open>TestFromPrivateKey\<close>: the public-only envelope gives
  the public key from both entry points, the envelope with a private component gives
  the private key from both.
\<close>

lemma entry_points_agree_on_test_records:
  "FromPrivateKey testVectors (Some publicRecord) = Inr (Ed25519PublicKey testPub)
   \<and> \<not> isl (FromPrivateKey testVectors (Some publicRecord))
   \<and> \<not> isPrivateKeyObject (Ed25519PublicKey testPub)
   \<and> FromPrivateKey testVectors (Some pairRecord) = Inr (Ed25519PrivateKey (testSeed @ testPub))
   \<and> isPrivateKeyObject (Ed25519PrivateKey (testSeed @ testPub))"
proof -
  note a = entry_points_agree [of testVectors "Some publicRecord"]
  note b = entry_points_agree [of testVectors "Some pairRecord"]
  have 1: "FromPrivateKey testVectors (Some publicRecord) = Inr (Ed25519PublicKey testPub)
           \<and> \<not> isPrivateKeyObject (Ed25519PublicKey testPub)"
    using a jsonDecode_publicRecord From_publicRecord by simp
  have 2: "FromPrivateKey testVectors (Some pairRecord)
             = Inr (Ed25519PrivateKey (testSeed @ testPub))"
    using b From_pairRecord by simp
  have 3: "isPrivateKeyObject (Ed25519PrivateKey (testSeed @ testPub))"
    using b jsonDecode_pairRecord From_pairRecord by simp
  show ?thesis using 1 2 3 by simp
qed

text \<open>
  C10. The claim: for the same record both entry points produce the same result, and in
  particular \<^verbatim>\<open>FromPublicKey\<close> returns a private-key object when the record carries a
  private component. The two results do agree on every record, but for a record of the
  RSA type they agree on the nil key that \<^verbatim>\<open>unmarshalRSAKey\<close> returns with no error:
  the record below carries the envelope of the tests with its private component, and
  \<^verbatim>\<open>FromPublicKey\<close> returns nil, which is no private-key object.
\<close>

theorem rsa_record_with_private_component_yields_nil:
  "jsonDecode testVectors (take MaxKeyInputSize (Value rsaPairRecord))
     = Inr \<lparr>Public = testPub, Private = Some (testSeed @ testPub)\<rparr>
   \<and> FromPublicKey testVectors (Some rsaPairRecord) = Inr NilKey
   \<and> FromPrivateKey testVectors (Some rsaPairRecord) = Inr NilKey
   \<and> \<not> isPrivateKeyObject NilKey"
proof -
  have d: "jsonDecode testVectors (take MaxKeyInputSize (Value rsaPairRecord))
             = Inr \<lparr>Public = testPub, Private = Some (testSeed @ testPub)\<rparr>"
    using vectorsJsonDecode_pair [of "[]"]
    by (simp add: rsaPairRecord_def testVectors_def)
  have t: "Type rsaPairRecord = KeyTypeRSASSA_PSS_SHA256"
    by (simp add: rsaPairRecord_def)
  show ?thesis
    by (simp add: d t FromPublicKey_def FromPrivateKey_def KeyType_distinct
        unmarshalRSAKey_def isPrivateKeyObject_def)
qed

text \<open>
  C4. For an ECDSA key record the decoder fails whenever the first public byte is not
  2, 3 or 4, and whenever the point that the bytes decode to does not satisfy
  \<^verbatim>\<open>IsOnCurve\<close> for P-256; every key it returns carries a point that satisfies it.
  Both entry points reach this decoder for the type "ecdsa-sha2-nistp256".
\<close>

theorem unmarshalECDSAKey_rejects_off_curve:
  "(\<forall>b rest. Public kp = b # rest \<and> b \<noteq> 2 \<and> b \<noteq> 3 \<and> b \<noteq> 4
       \<longrightarrow> isl (unmarshalECDSAKey E (Some kp)))
   \<and> (\<forall>b rest x y. Public kp = b # rest
         \<and> (if b = 4 then Unmarshal E P256 (Public kp)
             else UnmarshalCompressed E P256 (Public kp)) = Some (x, y)
         \<and> \<not> IsOnCurve E P256 x y
       \<longrightarrow> isl (unmarshalECDSAKey E (Some kp)))
   \<and> (\<forall>k. unmarshalECDSAKey E (Some kp) = Inr k
       \<longrightarrow> (\<exists>pub. Curve pub = Some P256 \<and> IsOnCurve E P256 (X pub) (Y pub)
                 \<and> (k = EcdsaPublicKeyPtr (Some pub)
                      \<or> (\<exists>d. k = EcdsaPrivateKeyPtr (Some \<lparr>PublicKey = pub, D = d\<rparr>)))))
   \<and> (\<forall>t. Type t = KeyTypeECDSA_SHA2_P256
         \<and> jsonDecode E (take MaxKeyInputSize (Value t)) = Inr kp
       \<longrightarrow> FromPrivateKey E (Some t) = unmarshalECDSAKey E (Some kp)
         \<and> FromPublicKey E (Some t) = unmarshalECDSAKey E (Some kp))"
proof -
  have tag: "isl (unmarshalECDSAKey E (Some kp))"
    if "Public kp = b # rest" "b \<noteq> 2" "b \<noteq> 3" "b \<noteq> 4" for b rest
    using that by (simp add: unmarshalECDSAKey_def)
  have off: "isl (unmarshalECDSAKey E (Some kp))"
    if "Public kp = b # rest"
       "(if b = 4 then Unmarshal E P256 (Public kp)
         else UnmarshalCompressed E P256 (Public kp)) = Some (x, y)"
       "\<not> IsOnCurve E P256 x y" for b rest x y
    using that by (auto simp: unmarshalECDSAKey_def split: if_splits)
  have ok: "\<exists>pub. Curve pub = Some P256 \<and> IsOnCurve E P256 (X pub) (Y pub)
                 \<and> (k = EcdsaPublicKeyPtr (Some pub)
                      \<or> (\<exists>d. k = EcdsaPrivateKeyPtr (Some \<lparr>PublicKey = pub, D = d\<rparr>)))"
    if "unmarshalECDSAKey E (Some kp) = Inr k" for k
  proof -
    from unmarshalECDSAKey_shape [OF that] obtain x y where
      on: "IsOnCurve E P256 x y" and
      sh: "case Private kp of
             None \<Rightarrow> k = EcdsaPublicKeyPtr (Some \<lparr>Curve = Some P256, X = x, Y = y\<rparr>)
           | Some priv \<Rightarrow> k = EcdsaPrivateKeyPtr
               (Some \<lparr>PublicKey = \<lparr>Curve = Some P256, X = x, Y = y\<rparr>, D = SetBytes priv\<rparr>)"
      by blast
    show ?thesis
      by (rule exI [of _ "\<lparr>Curve = Some P256, X = x, Y = y\<rparr>"])
         (use on sh in \<open>auto split: option.splits\<close>)
  qed
  have disp: "FromPrivateKey E (Some t) = unmarshalECDSAKey E (Some kp)
              \<and> FromPublicKey E (Some t) = unmarshalECDSAKey E (Some kp)"
    if "Type t = KeyTypeECDSA_SHA2_P256"
       "jsonDecode E (take MaxKeyInputSize (Value t)) = Inr kp" for t
    using that by (simp add: FromPrivateKey_def FromPublicKey_def KeyType_distinct)
  show ?thesis using tag off ok disp by blast
qed


text \<open>
  A tag byte 5 is refused; a library that handed back the point (1, 1) unchecked would
  be refused by the decoder's own check; the base point of P-256 in uncompressed form
  is accepted and lies on the curve.
\<close>

theorem unmarshalECDSAKey_rejects_off_curve_witness:
  "isl (unmarshalECDSAKey testVectors (Some \<lparr>Public = [5], Private = None\<rparr>))
   \<and> isl (unmarshalECDSAKey (testVectors\<lparr>Unmarshal := \<lambda>c bs. Some (1, 1)\<rparr>)
            (Some \<lparr>Public = [4], Private = None\<rparr>))
   \<and> unmarshalECDSAKey testVectors (Some \<lparr>Public = basePointBytes, Private = None\<rparr>)
       = Inr (EcdsaPublicKeyPtr (Some \<lparr>Curve = Some P256, X = p256Gx, Y = p256Gy\<rparr>))
   \<and> IsOnCurve testVectors P256 p256Gx p256Gy
   \<and> FromPublicKey (testVectors\<lparr>jsonDecode := \<lambda>bs. Inr \<lparr>Public = [5], Private = None\<rparr>\<rparr>)
        (Some \<lparr>Type = KeyTypeECDSA_SHA2_P256, Value = []\<rparr>)
       = Inl (New ''key: unsupported ecdsa public key encoding'')"
proof -
  let ?E2 = "testVectors\<lparr>Unmarshal := \<lambda>c bs. Some (1, 1)\<rparr>"
  let ?E3 = "testVectors\<lparr>jsonDecode := \<lambda>bs. Inr \<lparr>Public = [5], Private = None\<rparr>\<rparr>"
  have 1: "isl (unmarshalECDSAKey testVectors (Some \<lparr>Public = [5], Private = None\<rparr>))"
    using unmarshalECDSAKey_rejects_off_curve [of "\<lparr>Public = [5], Private = None\<rparr>" testVectors]
    by simp
  have off: "\<not> IsOnCurve ?E2 P256 1 1"
    by (simp add: testVectors_def one_one_off_curve)
  have 2: "isl (unmarshalECDSAKey ?E2 (Some \<lparr>Public = [4], Private = None\<rparr>))"
    using off unmarshalECDSAKey_rejects_off_curve [of "\<lparr>Public = [4], Private = None\<rparr>" ?E2]
    by simp
  have 3: "IsOnCurve testVectors P256 p256Gx p256Gy"
    using unmarshal_basePoint
      unmarshalECDSAKey_rejects_off_curve [of "\<lparr>Public = basePointBytes, Private = None\<rparr>" testVectors]
    by auto
  have e: "unmarshalECDSAKey ?E3 (Some \<lparr>Public = [5], Private = None\<rparr>)
             = Inl (New ''key: unsupported ecdsa public key encoding'')"
    by (simp add: unmarshalECDSAKey_def)
  have 4: "FromPublicKey ?E3 (Some \<lparr>Type = KeyTypeECDSA_SHA2_P256, Value = []\<rparr>)
             = Inl (New ''key: unsupported ecdsa public key encoding'')"
    using e unmarshalECDSAKey_rejects_off_curve [of "\<lparr>Public = [5], Private = None\<rparr>" ?E3]
    by simp
  show ?thesis using 1 2 3 4 unmarshal_basePoint by simp
qed


text \<open>
  C5. The claim: a blacklisted Ed25519 public key fails to decode with an InvalidKey
  error. The key is refused, but the error is the plain
  \<^verbatim>\<open>errors.New("key: the public key is blacklisted")\<close>: it neither is nor wraps the
  sentinel \<^verbatim>\<open>ErrInvalidKey\<close>, which belongs to package signatures and is not used by
  the decoder.
\<close>

theorem blacklisted_key_error_is_not_ErrInvalidKey:
  "length zeroPoint = PublicKeySize
   \<and> zeroPoint \<in> set (lowOrderPoints testVectors)
   \<and> unmarshalEd25519Key testVectors (Some \<lparr>Public = zeroPoint, Private = None\<rparr>)
       = Inl (New ''key: the public key is blacklisted'')
   \<and> \<not> errorsIs (New ''key: the public key is blacklisted'') ErrInvalidKey"
  by (simp add: unmarshalEd25519Key_def isEdLowOrder_def testVectors_def length_zeroPoint
      PublicKeySize_def ErrInvalidKey_def)


text \<open>
  C5, amended. A key record whose 32-byte public key is on the blacklist is never
  accepted: the decoder, and both entry points for the type "ed25519", return the
  error "key: the public key is blacklisted".
\<close>

theorem low_order_key_rejected:
  "length (Public kp) = PublicKeySize \<and> Public kp \<in> set (lowOrderPoints E) \<longrightarrow>
     unmarshalEd25519Key E (Some kp) = Inl (New ''key: the public key is blacklisted'')
     \<and> (\<forall>t. Type t = KeyTypeEd25519 \<and> jsonDecode E (take MaxKeyInputSize (Value t)) = Inr kp
          \<longrightarrow> FromPrivateKey E (Some t) = Inl (New ''key: the public key is blacklisted'')
            \<and> FromPublicKey E (Some t) = Inl (New ''key: the public key is blacklisted''))"
  by (simp add: unmarshalEd25519Key_def isEdLowOrder_def FromPrivateKey_def FromPublicKey_def)


text \<open>The encoding of the neutral element, a point of order 1, is on the table.\<close>

theorem low_order_key_rejected_witness:
  "length onePoint = PublicKeySize \<and> onePoint \<in> set (lowOrderPoints testVectors)
   \<and> unmarshalEd25519Key testVectors (Some \<lparr>Public = onePoint, Private = None\<rparr>)
       = Inl (New ''key: the public key is blacklisted'')
   \<and> FromPrivateKey (testVectors\<lparr>jsonDecode := \<lambda>bs. Inr \<lparr>Public = onePoint, Private = None\<rparr>\<rparr>)
        (Some \<lparr>Type = KeyTypeEd25519, Value = []\<rparr>)
       = Inl (New ''key: the public key is blacklisted'')"
proof -
  let ?E = "testVectors\<lparr>jsonDecode := \<lambda>bs. Inr \<lparr>Public = onePoint, Private = None\<rparr>\<rparr>"
  have l: "length onePoint = PublicKeySize" by (simp add: onePoint_def PublicKeySize_def)
  have m: "onePoint \<in> set (lowOrderPoints testVectors)" "onePoint \<in> set (lowOrderPoints ?E)"
    by (simp_all add: testVectors_def)
  have 1: "unmarshalEd25519Key testVectors (Some \<lparr>Public = onePoint, Private = None\<rparr>)
             = Inl (New ''key: the public key is blacklisted'')"
    using l m low_order_key_rejected [of "\<lparr>Public = onePoint, Private = None\<rparr>" testVectors]
    by simp
  have 2: "FromPrivateKey ?E (Some \<lparr>Type = KeyTypeEd25519, Value = []\<rparr>)
             = Inl (New ''key: the public key is blacklisted'')"
    using l m low_order_key_rejected [of "\<lparr>Public = onePoint, Private = None\<rparr>" ?E]
    by simp
  show ?thesis using l m 1 2 by simp
qed


text \<open>
  C2. The claim: a decoded Ed25519 private key embeds, in its last 32 bytes, the public
  key derived from it. The decoder derives the public key from the first 32 bytes (the
  seed) and compares it with the declared public key only; the last 32 bytes of the
  private component are returned as they came. Here the private component is the test
  seed followed by 32 zero bytes, declared with the seed's true public key: it is
  accepted, and the key returned embeds the zero bytes.
\<close>

theorem ed25519_suffix_unchecked:
  "unmarshalEd25519Key testVectors (Some mismatchedPair)
     = Inr (Ed25519PrivateKey (testSeed @ zeroPoint))
   \<and> drop SeedSize (testSeed @ zeroPoint) = zeroPoint
   \<and> ed25519PublicFromSeed testVectors (take SeedSize (testSeed @ zeroPoint)) = testPub
   \<and> zeroPoint \<noteq> testPub"
proof -
  have 1: "unmarshalEd25519Key testVectors (Some mismatchedPair)
             = Inr (Ed25519PrivateKey (testSeed @ zeroPoint))"
    unfolding mismatchedPair_def by (rule unmarshal_testPair) (rule length_zeroPoint)
  have 2: "zeroPoint \<noteq> testPub" by (simp add: zeroPoint_def testPub_def)
  show ?thesis using 1 2 by (simp add: SeedSize_def length_testSeed testVectors_def)
qed


text \<open>
  For ECDSA the check is complete: a returned private key has a scalar of 32 bytes whose
  multiple of the base point, as the library computes it, is the returned public point.
\<close>

lemma unmarshalECDSAKey_private_consistent:
  "unmarshalECDSAKey E (Some kp) = Inr (EcdsaPrivateKeyPtr (Some pk)) \<Longrightarrow>
     \<exists>priv. Private kp = Some priv \<and> length priv = 32 \<and> D pk = SetBytes priv
          \<and> ScalarBaseMult E P256 priv = (X (PublicKey pk), Y (PublicKey pk))"
  by (auto simp: unmarshalECDSAKey_def Let_def curveByteSize_P256
      split: option.splits if_splits sum.splits prod.splits list.splits)


section \<open>Properties of the algorithms\<close>

lemma registered_sizes:
  "m = ECDSA_P256_SHA256 \<or> m = ECDSA_P384_SHA384 \<Longrightarrow>
     curveBits m sdiv 8 + (if curveBits m smod 8 > 0 then 1 else 0) = keySize m
     \<and> 0 < keySize m"
  by (auto simp: ECDSA_P256_SHA256_def ECDSA_P384_SHA384_def keyBytes_256 keyBytes_384)


lemma registered_bound:
  "m = ECDSA_P256_SHA256 \<or> m = ECDSA_P384_SHA384 \<Longrightarrow>
     (2::nat) ^ nat (curveBits m) = 256 ^ nat (keySize m)"
  by (auto simp: ECDSA_P256_SHA256_def ECDSA_P384_SHA384_def)

lemma FillBytes_in_range:
  "0 \<le> x \<Longrightarrow> x < 2 ^ nat (curveBits m) \<Longrightarrow> m = ECDSA_P256_SHA256 \<or> m = ECDSA_P384_SHA384 \<Longrightarrow>
     \<exists>bs. FillBytes x (nat (keySize m)) = Some bs \<and> length bs = nat (keySize m) \<and> SetBytes bs = x"
proof -
  assume x: "0 \<le> x" "x < 2 ^ nat (curveBits m)" and reg: "m = ECDSA_P256_SHA256 \<or> m = ECDSA_P384_SHA384"
  from x have "nat x < 2 ^ nat (curveBits m)"
    by (metis nat_less_iff of_nat_numeral of_nat_power)
  then have "nat \<bar>x\<bar> < 256 ^ nat (keySize m)"
    using x(1) registered_bound [OF reg] by simp
  then have f: "FillBytes x (nat (keySize m)) = Some (bigEndian (nat (keySize m)) (nat \<bar>x\<bar>))"
    by (simp add: FillBytes_def)
  from SetBytes_FillBytes [OF f] x(1) f show ?thesis by simp
qed

text \<open>
  C8. The claim: every \<^verbatim>\<open>Sign\<close> call rejects an empty message or a nil key with the
  InvalidArgument kind. For the nil key it does not hold: both signers wrap
  \<^verbatim>\<open>ErrInvalidKey\<close>, as the sentinel's own comment says ("raised when the given key is
  nil or unsupported").
\<close>

theorem nil_key_error_is_not_ErrInvalidArgument:
  "Sign testVectors Ed25519Signer testMsg NilKey []
     = Fail (Wrap ''ed25519: provided key is nil'' ErrInvalidKey)
   \<and> Sign testVectors (EcdsaSigner ECDSA_P256_SHA256) testMsg NilKey []
     = Fail (Wrap ''ecdsa: provided key is nil'' ErrInvalidKey)
   \<and> \<not> errorsIs (Wrap ''ed25519: provided key is nil'' ErrInvalidKey) ErrInvalidArgument
   \<and> \<not> errorsIs (Wrap ''ecdsa: provided key is nil'' ErrInvalidKey) ErrInvalidArgument"
  by (simp add: ed25519Signer_Sign_def ecdsaSigner_Sign_def testMsg_nonempty
      ErrInvalidKey_def ErrInvalidArgument_def)

text \<open>
  C8, amended. Every \<^verbatim>\<open>Sign\<close> call rejects an empty message with an error that wraps
  \<^verbatim>\<open>ErrInvalidArgument\<close>, and a nil key under a non-empty message with an error that
  wraps \<^verbatim>\<open>ErrInvalidKey\<close> and not \<^verbatim>\<open>ErrInvalidArgument\<close>; in both cases the outcome
  is the same under every library environment, so no cryptographic operation decides it.
\<close>

theorem Sign_rejects_bad_arguments:
  "(msg = [] \<longrightarrow> (\<exists>e. Sign E alg msg k opts = Fail e \<and> errorsIs e ErrInvalidArgument))
   \<and> (msg \<noteq> [] \<and> k = NilKey \<longrightarrow>
        (\<exists>e. Sign E alg msg k opts = Fail e \<and> errorsIs e ErrInvalidKey
              \<and> \<not> errorsIs e ErrInvalidArgument))
   \<and> (msg = [] \<or> k = NilKey \<longrightarrow> Sign E alg msg k opts = Sign E' alg msg k opts)"
  by (cases alg)
     (auto simp: ed25519Signer_Sign_def ecdsaSigner_Sign_def ErrInvalidKey_def
        ErrInvalidArgument_def)

theorem Sign_rejects_bad_arguments_witness:
  "(\<exists>e. Sign testVectors Ed25519Signer [] (Ed25519PrivateKey (testSeed @ testPub)) [] = Fail e
        \<and> errorsIs e ErrInvalidArgument)
   \<and> (\<exists>e. Sign testVectors (EcdsaSigner ECDSA_P256_SHA256) testMsg NilKey [] = Fail e
        \<and> errorsIs e ErrInvalidKey \<and> \<not> errorsIs e ErrInvalidArgument)"
  using Sign_rejects_bad_arguments
          [where msg = "[]" and E = testVectors and alg = Ed25519Signer
             and k = "Ed25519PrivateKey (testSeed @ testPub)" and opts = "[]"]
        Sign_rejects_bad_arguments
          [where msg = testMsg and E = testVectors and alg = "EcdsaSigner ECDSA_P256_SHA256"
             and k = NilKey and opts = "[]"]
        testMsg_nonempty
  by simp




text \<open>
  C6. Round trip. For Ed25519 and for the two registered ECDSA instances, for a
  non-empty message and a key pair of the algorithm: when the library signs the message
  with the private key (for ECDSA: the digest, giving \<open>r\<close> and \<open>s\<close> below
  \<open>2 ^ curveBits\<close>; for Ed25519: giving 64 bytes) and its verification accepts that
  signature under the public key, then \<^verbatim>\<open>Sign\<close> returns a signature and
  \<^verbatim>\<open>Verify\<close> of that signature returns no error. The keys may be passed by value or
  by pointer, with any signing options.
\<close>

theorem sign_verify_roundtrip:
  "(msg \<noteq> []
      \<and> (priv = Ed25519PrivateKey sk \<or> priv = Ed25519PrivateKeyPtr (Some sk))
      \<and> (pub = Ed25519PublicKey pk \<or> pub = Ed25519PublicKeyPtr (Some pk))
      \<and> length sk = PrivateKeySize \<and> length pk = PublicKeySize
      \<and> ed25519Sign E (randSource (fold (\<lambda>opt d. opt d) opts \<lparr>randSource = CryptoRandReader\<rparr>))
           sk msg = Inr sg
      \<and> length sg = 64 \<and> ed25519Verify E pk msg sg
    \<longrightarrow> Sign E Ed25519Signer msg priv opts = Return sg
      \<and> Verify E Ed25519Signer msg sg pub = Return ())
   \<and> ((m = ECDSA_P256_SHA256 \<or> m = ECDSA_P384_SHA384) \<and> msg \<noteq> []
      \<and> (epriv = EcdsaPrivateKey esk \<or> epriv = EcdsaPrivateKeyPtr (Some esk))
      \<and> (epub = EcdsaPublicKey (PublicKey esk) \<or> epub = EcdsaPublicKeyPtr (Some (PublicKey esk)))
      \<and> Curve (PublicKey esk) = Some c \<and> BitSize c = curveBits m
      \<and> hashAvailable E (hash m) \<and> hashSum E (hash m) msg = Inr dg
      \<and> ecdsaSign E (randSource (fold (\<lambda>opt d. opt d) opts \<lparr>randSource = CryptoRandReader\<rparr>))
           esk dg = Inr (r, s)
      \<and> 0 \<le> r \<and> r < 2 ^ nat (curveBits m) \<and> 0 \<le> s \<and> s < 2 ^ nat (curveBits m)
      \<and> ecdsaVerify E (PublicKey esk) dg r s
    \<longrightarrow> (\<exists>sg. Sign E (EcdsaSigner m) msg epriv opts = Return sg
            \<and> Verify E (EcdsaSigner m) msg sg epub = Return ()))"
proof -
  have ed: "Sign E Ed25519Signer msg priv opts = Return sg
      \<and> Verify E Ed25519Signer msg sg pub = Return ()"
    if "msg \<noteq> []" "priv = Ed25519PrivateKey sk \<or> priv = Ed25519PrivateKeyPtr (Some sk)"
       "pub = Ed25519PublicKey pk \<or> pub = Ed25519PublicKeyPtr (Some pk)"
       "length sk = PrivateKeySize" "length pk = PublicKeySize"
       "ed25519Sign E (randSource (fold (\<lambda>opt d. opt d) opts \<lparr>randSource = CryptoRandReader\<rparr>))
           sk msg = Inr sg"
       "length sg = 64" "ed25519Verify E pk msg sg"
  proof -
    from that(7) have ne: "sg \<noteq> []" by auto
    show ?thesis
      using that(1-6,8) ne by (auto simp: ed25519Signer_Sign_def ed25519Signer_Verify_def)
  qed
  have ec: "\<exists>sg. Sign E (EcdsaSigner m) msg epriv opts = Return sg
            \<and> Verify E (EcdsaSigner m) msg sg epub = Return ()"
    if reg: "m = ECDSA_P256_SHA256 \<or> m = ECDSA_P384_SHA384" and msg: "msg \<noteq> []"
      and kpriv: "epriv = EcdsaPrivateKey esk \<or> epriv = EcdsaPrivateKeyPtr (Some esk)"
      and kpub: "epub = EcdsaPublicKey (PublicKey esk) \<or> epub = EcdsaPublicKeyPtr (Some (PublicKey esk))"
      and cv: "Curve (PublicKey esk) = Some c" "BitSize c = curveBits m"
      and h: "hashAvailable E (hash m)" "hashSum E (hash m) msg = Inr dg"
      and sgn: "ecdsaSign E (randSource (fold (\<lambda>opt d. opt d) opts \<lparr>randSource = CryptoRandReader\<rparr>))
           esk dg = Inr (r, s)"
      and rng: "0 \<le> r" "r < 2 ^ nat (curveBits m)" "0 \<le> s" "s < 2 ^ nat (curveBits m)"
      and ver: "ecdsaVerify E (PublicKey esk) dg r s"
  proof -
    note sz = registered_sizes [OF reg]
    from FillBytes_in_range [OF rng(1,2) reg] obtain rb where
      rb: "FillBytes r (nat (keySize m)) = Some rb" "length rb = nat (keySize m)" "SetBytes rb = r"
      by blast
    from FillBytes_in_range [OF rng(3,4) reg] obtain sb where
      sb: "FillBytes s (nat (keySize m)) = Some sb" "length sb = nat (keySize m)" "SetBytes sb = s"
      by blast
    have sign: "ecdsaSigner_Sign E m msg epriv opts = Return (rb @ sb)"
      using msg kpriv cv h sgn sz rb(1) sb(1)
      by (auto simp: ecdsaSigner_Sign_def)
    have len: "int (length (rb @ sb)) = 2 * keySize m" "rb @ sb \<noteq> []"
      using rb(2) sb(2) sz by auto
    have verify: "ecdsaSigner_Verify E m msg (rb @ sb) epub = Return ()"
      using msg kpub cv h len rb(2,3) sb(2,3) ver
      by (auto simp: ecdsaSigner_Verify_def)
    show ?thesis using sign verify by simp
  qed
  show ?thesis using ed ec by blast
qed

text \<open>
  The Ed25519 vector of the tests (seed "32-characters-deterministic-seed", message
  "test") and the P-256 signature of "test" under the scalar 1.
\<close>

theorem sign_verify_roundtrip_witness:
  "Sign testVectors Ed25519Signer testMsg (Ed25519PrivateKey (testSeed @ testPub)) []
     = Return testSignature
   \<and> Verify testVectors Ed25519Signer testMsg testSignature (Ed25519PublicKey testPub) = Return ()
   \<and> Sign testVectors (EcdsaSigner ECDSA_P256_SHA256) testMsg
        (EcdsaPrivateKeyPtr (Some scalarOneKey)) [] = Return (sigRBytes @ sigSBytes)
   \<and> Verify testVectors (EcdsaSigner ECDSA_P256_SHA256) testMsg (sigRBytes @ sigSBytes)
        (EcdsaPublicKeyPtr (Some basePointKey)) = Return ()"
proof -
  have ed: "Sign testVectors Ed25519Signer testMsg (Ed25519PrivateKey (testSeed @ testPub)) []
              = Return testSignature
            \<and> Verify testVectors Ed25519Signer testMsg testSignature (Ed25519PublicKey testPub)
              = Return ()"
    using sign_verify_roundtrip
            [where E = testVectors and msg = testMsg and opts = "[]"
               and priv = "Ed25519PrivateKey (testSeed @ testPub)" and sk = "testSeed @ testPub"
               and pub = "Ed25519PublicKey testPub" and pk = testPub and sg = testSignature]
          testMsg_nonempty length_testSignature length_testSeed length_testPub
    by (simp add: testVectors_def PrivateKeySize_def PublicKeySize_def)
  have "\<exists>sg. Sign testVectors (EcdsaSigner ECDSA_P256_SHA256) testMsg
                 (EcdsaPrivateKeyPtr (Some scalarOneKey)) [] = Return sg
            \<and> Verify testVectors (EcdsaSigner ECDSA_P256_SHA256) testMsg sg
                 (EcdsaPublicKeyPtr (Some basePointKey)) = Return ()"
    using sign_verify_roundtrip
            [where E = testVectors and msg = testMsg and opts = "[]"
               and m = ECDSA_P256_SHA256 and epriv = "EcdsaPrivateKeyPtr (Some scalarOneKey)"
               and esk = scalarOneKey and epub = "EcdsaPublicKeyPtr (Some basePointKey)"
               and c = P256 and dg = sha256Test and r = sigR and s = sigS]
          testMsg_nonempty sig_in_range
    by (simp add: testVectors_def scalarOneKey_def basePointKey_def P256_def
        ECDSA_P256_SHA256_def)
  then have ec: "Verify testVectors (EcdsaSigner ECDSA_P256_SHA256) testMsg
                   (sigRBytes @ sigSBytes) (EcdsaPublicKeyPtr (Some basePointKey)) = Return ()"
    using Sign_scalarOne by auto
  show ?thesis using ed ec Sign_scalarOne by simp
qed

section \<open>Properties of the registry\<close>

text \<open>The registry and the store after \<^verbatim>\<open>init\<close> has run on the empty world.\<close>

lemma init_emptyWorld:
  "init emptyWorld =
     \<lparr>mem = \<lparr>heap = [0 \<mapsto> Ed25519Signer, 1 \<mapsto> EcdsaSigner ECDSA_P256_SHA256,
                     2 \<mapsto> EcdsaSigner ECDSA_P384_SHA384],
             nextAddr = 3, varEd25519 = Some 0, varECDSA_P256_SHA256 = Some 1,
             varECDSA_P384_SHA384 = Some 2\<rparr>,
      registry = [''ed25519'' \<mapsto> Some (\<lambda>s. (varEd25519 s, s)),
                  ''ecdsa-sha2-nistp256'' \<mapsto> Some (\<lambda>s. (varECDSA_P256_SHA256 s, s)),
                  ''ecdsa-sha384-nistp384'' \<mapsto> Some (\<lambda>s. (varECDSA_P384_SHA384 s, s))]\<rparr>"
  by (simp add: init_def emptyWorld_def new_def RegisterAlgorithm_def Let_def
      ed25519Signer_Name_def ecdsaSigner_Name_def ECDSA_P256_SHA256_def ECDSA_P384_SHA384_def
      numeral_3_eq_3 numeral_2_eq_2)

text \<open>
  C9. The claim: a lookup of a registered name returns a freshly constructed algorithm.
  It does not hold for the builders that \<^verbatim>\<open>init\<close> registers: each returns the value of
  a package-level variable. The lookup of "ed25519" returns the pointer that \<^verbatim>\<open>init\<close>
  allocated, allocates nothing, and a second lookup returns the same pointer.
\<close>

theorem registered_lookup_is_not_fresh:
  "GetAlgorithm (init emptyWorld) ''ed25519'' = (Return (Some 0), init emptyWorld)
   \<and> heap (mem (init emptyWorld)) 0 = Some Ed25519Signer
   \<and> fst (GetAlgorithm (snd (GetAlgorithm (init emptyWorld) ''ed25519'')) ''ed25519'')
       = Return (Some 0)"
  by (simp add: init_emptyWorld GetAlgorithm_def)

text \<open>
  C9, amended. A name with no registered entry resolves to nil, with no error and no
  panic, and the world is unchanged. A name registered with a builder resolves to
  whatever that builder returns. After \<^verbatim>\<open>init\<close>, each of the three registered names
  resolves to the shared instance held in its package-level variable, whose
  \<^verbatim>\<open>Name\<close> is the name looked up, and the lookup leaves the world unchanged.
\<close>

theorem GetAlgorithm_lookup:
  "(registry w n = None \<longrightarrow> GetAlgorithm w n = (Return None, w))
   \<and> (registry w n = Some (Some b) \<longrightarrow>
        GetAlgorithm w n = (Return (fst (b (mem w))), w\<lparr>mem := snd (b (mem w))\<rparr>))
   \<and> (n' = ''ed25519'' \<or> n' = ''ecdsa-sha2-nistp256'' \<or> n' = ''ecdsa-sha384-nistp384'' \<longrightarrow>
        (\<exists>a alg. GetAlgorithm (init emptyWorld) n' = (Return (Some a), init emptyWorld)
               \<and> heap (mem (init emptyWorld)) a = Some alg \<and> Name alg = n'))"
proof -
  have 1: "registry w n = None \<longrightarrow> GetAlgorithm w n = (Return None, w)"
    by (simp add: GetAlgorithm_def)
  have 2: "registry w n = Some (Some b) \<longrightarrow>
        GetAlgorithm w n = (Return (fst (b (mem w))), w\<lparr>mem := snd (b (mem w))\<rparr>)"
    by (simp add: GetAlgorithm_def split: prod.splits)
  have 3: "\<exists>a alg. GetAlgorithm (init emptyWorld) n' = (Return (Some a), init emptyWorld)
               \<and> heap (mem (init emptyWorld)) a = Some alg \<and> Name alg = n'"
    if "n' = ''ed25519'' \<or> n' = ''ecdsa-sha2-nistp256'' \<or> n' = ''ecdsa-sha384-nistp384''"
    using that
    by (auto simp: init_emptyWorld GetAlgorithm_def ed25519Signer_Name_def ecdsaSigner_Name_def
        ECDSA_P256_SHA256_def ECDSA_P384_SHA384_def)
  show ?thesis using 1 2 3 by blast
qed

text \<open>
  The tests of the registry: the unknown name "not-existent" resolves to nil, and a
  registered name resolves to an algorithm of that name.
\<close>

theorem GetAlgorithm_lookup_witness:
  "GetAlgorithm (init emptyWorld) ''not-existent'' = (Return None, init emptyWorld)
   \<and> GetAlgorithm (init emptyWorld) ''ecdsa-sha2-nistp256'' = (Return (Some 1), init emptyWorld)
   \<and> (\<exists>a alg. GetAlgorithm (init emptyWorld) ''ed25519'' = (Return (Some a), init emptyWorld)
               \<and> heap (mem (init emptyWorld)) a = Some alg \<and> Name alg = ''ed25519'')"
proof -
  have r1: "registry (init emptyWorld) ''not-existent'' = None"
    by (simp add: init_emptyWorld)
  have r2: "registry (init emptyWorld) ''ecdsa-sha2-nistp256''
              = Some (Some (\<lambda>s. (varECDSA_P256_SHA256 s, s)))"
    by (simp add: init_emptyWorld)
  have m: "varECDSA_P256_SHA256 (mem (init emptyWorld)) = Some 1"
    by (simp add: init_emptyWorld)
  have 1: "GetAlgorithm (init emptyWorld) ''not-existent'' = (Return None, init emptyWorld)"
    using r1 GetAlgorithm_lookup [where w = "init emptyWorld" and n = "''not-existent''"]
    by blast
  have 2: "GetAlgorithm (init emptyWorld) ''ecdsa-sha2-nistp256''
             = (Return (Some 1), init emptyWorld)"
    using r2 m GetAlgorithm_lookup [where w = "init emptyWorld" and n = "''ecdsa-sha2-nistp256''"
                                     and b = "\<lambda>s. (varECDSA_P256_SHA256 s, s)"]
    by simp
  have 3: "\<exists>a alg. GetAlgorithm (init emptyWorld) ''ed25519'' = (Return (Some a), init emptyWorld)
               \<and> heap (mem (init emptyWorld)) a = Some alg \<and> Name alg = ''ed25519''"
    using GetAlgorithm_lookup [where n' = "''ed25519''"] by blast
  show ?thesis using 1 2 3 by blast
qed

end
